theory Spec2Isabelle
  imports Complex_Main "HOL-Library.Word" "HOL-Library.Char_ord" "HOL-Library.List_Lexorder"
    "HOL-Library.Product_Lexorder"
begin

unbundle bit_operations_syntax

section \<open>Deterministic key-to-unit hash\<close>

text \<open>
  A Python \<open>str\<close> key enters both hash functions only through \<open>x.encode("utf-8")\<close>.
  The key is therefore represented by its UTF-8 byte sequence: a \<open>string\<close>, whose
  characters are bytes, read as integers 0..255 by \<open>of_char\<close>. Python's integers are
  unbounded, so the accumulator is an \<open>int\<close> and the mask is written out.
\<close>

definition encode_utf8 :: "string \<Rightarrow> int list" where
  "encode_utf8 x = map of_char x"

text \<open>\<open>generate_routes._stable_hash_to_unit\<close>: three statements per byte.\<close>

definition hash_step :: "int \<Rightarrow> int \<Rightarrow> int" where
  "hash_step h ch =
     (let h1 = h XOR ch;
          h2 = h1 * 16777619;
          h3 = h2 AND 0xFFFFFFFF
      in h3)"

definition stable_hash_to_unit :: "string \<Rightarrow> real" where
  "stable_hash_to_unit x =
     (let h = foldl hash_step 2166136261 (encode_utf8 x)
      in real_of_int (h mod 10000000) / 10000000)"

text \<open>\<open>features_v2._stable_unit\<close>: xor, then multiply and mask in one statement.\<close>

definition unit_step :: "int \<Rightarrow> int \<Rightarrow> int" where
  "unit_step h b = (let h1 = h XOR b in (h1 * 16777619) AND 0xFFFFFFFF)"

definition stable_unit :: "string \<Rightarrow> real" where
  "stable_unit seed =
     (let h = foldl unit_step 2166136261 (encode_utf8 seed)
      in real_of_int (h mod 10000000) / 10000000)"

text \<open>
  The reference definition in the specification's words: the 32-bit FNV-1a rolling hash
  on machine words (initial value 2166136261, xor the byte, multiply by 16777619, all
  in 32 bits), reduced modulo 10,000,000 and divided by 10,000,000.
\<close>

definition fnv1a32 :: "8 word list \<Rightarrow> 32 word" where
  "fnv1a32 bs = foldl (\<lambda>h b. (h XOR ucast b) * 16777619) 2166136261 bs"

definition key_bytes :: "string \<Rightarrow> 8 word list" where
  "key_bytes x = map of_char x"

definition hash_to_unit_spec :: "string \<Rightarrow> real" where
  "hash_to_unit_spec x = real (unat (fnv1a32 (key_bytes x)) mod 10000000) / 10000000"



section \<open>Data model\<close>

text \<open>
  Floating-point columns are idealised as exact reals. Calendar dates are triples
  (year, month, day), ordered lexicographically as timestamps are.
\<close>

datatype error = ValueError | KeyError

type_synonym date = "int \<times> int \<times> int"

definition date_le :: "date \<Rightarrow> date \<Rightarrow> bool" where
  "date_le a b =
     (case a of (y1, m1, d1) \<Rightarrow> case b of (y2, m2, d2) \<Rightarrow>
        y1 < y2 \<or> (y1 = y2 \<and> (m1 < m2 \<or> (m1 = m2 \<and> d1 \<le> d2))))"

text \<open>\<open>int(strftime("%Y%m%d"))\<close> of a four-digit year.\<close>

definition date_key_of :: "date \<Rightarrow> int" where
  "date_key_of dt = (case dt of (y, m, d) \<Rightarrow> y * 10000 + m * 100 + d)"

text \<open>A row of \<open>dim_route.csv\<close>, as \<open>build_dim_route\<close> writes it.\<close>

record route =
  route_id :: int
  route_name :: string
  region :: string
  gpx_path :: string
  distance_km :: real
  duration_hours :: real
  difficulty :: string
  route_lat :: real
  route_lon :: real

text \<open>A row of \<open>dim_guide.csv\<close>.\<close>

record guide =
  guide_id :: int
  guide_name :: string
  email :: string
  phone :: string
  bio :: string

text \<open>A row of \<open>dim_date.csv\<close>, as \<open>build_dim_date\<close> writes it.\<close>

record date_row =
  dd_date :: date
  dd_date_key :: int
  dd_year :: int
  dd_quarter :: int
  dd_month :: int
  dd_month_name :: string
  dd_day :: int
  dd_day_name :: string
  dd_iso_year :: int
  dd_iso_week :: int
  dd_iso_day :: int
  dd_is_weekend :: bool
  dd_season :: string
  dd_is_bank_holiday_any :: bool
  dd_is_bank_holiday_england_wales :: bool
  dd_is_bank_holiday_scotland :: bool
  dd_is_bank_holiday_northern_ireland :: bool

text \<open>A row of \<open>dim_bank_holiday.csv\<close>.\<close>

record bank_holiday =
  bh_id :: int
  bh_date :: date
  bh_division :: string
  bh_title :: string
  bh_notes :: string
  bh_bunting :: bool

text \<open>
  \<open>dim_region_division.csv\<close>: rows (region, division), in file order.
  \<open>dict(zip(region, division))\<close> keeps the last row of a repeated region.
\<close>

type_synonym region_division = "(string \<times> string) list"

definition region_to_div :: "region_division \<Rightarrow> string \<rightharpoonup> string" where
  "region_to_div region_div = map_of (rev region_div)"

definition DEFAULT_DIVISION :: string where
  "DEFAULT_DIVISION = ''england-and-wales''"

text \<open>\<open>region_to_div.get(region, "england-and-wales")\<close>\<close>

definition division_of_region :: "region_division \<Rightarrow> string \<Rightarrow> string" where
  "division_of_region region_div rg =
     (case region_to_div region_div rg of None \<Rightarrow> DEFAULT_DIVISION | Some dv \<Rightarrow> dv)"

section \<open>Closed-day resolver\<close>

text \<open>
  \<open>CLOSED_HOLIDAY_KEYWORDS\<close>, byte for byte: the fourth keyword has the ASCII
  apostrophe (0x27), the fifth the right single quotation mark U+2019 (UTF-8 E2 80 99).
\<close>

definition CLOSED_HOLIDAY_KEYWORDS :: "string list" where
  "CLOSED_HOLIDAY_KEYWORDS =
     [''Christmas Day'',
      ''Boxing Day'',
      ''New Year'',
      ''New Year'' @ [CHR 0x27] @ ''s Day'',
      ''New Year'' @ [CHR 0xE2, CHR 0x80, CHR 0x99] @ ''s Day'',
      ''Good Friday'',
      ''Easter Monday'']"

text \<open>
  \<open>Series.str.contains(kw, case=False)\<close> searches the title for the keyword as a
  regular expression, ignoring case. No keyword has a metacharacter, so the search is a
  substring search; case is folded on the ASCII letters.
\<close>

definition lower_char :: "char \<Rightarrow> char" where
  "lower_char c =
     (let n = (of_char c :: nat) in if 65 \<le> n \<and> n \<le> 90 then char_of (n + 32) else c)"

fun starts_with :: "string \<Rightarrow> string \<Rightarrow> bool" where
  "starts_with s [] = True"
| "starts_with [] (k # ks) = False"
| "starts_with (c # cs) (k # ks) = (c = k \<and> starts_with cs ks)"

fun find_sub :: "string \<Rightarrow> string \<Rightarrow> bool" where
  "find_sub [] kw = starts_with [] kw"
| "find_sub (c # cs) kw = (starts_with (c # cs) kw \<or> find_sub cs kw)"

definition str_contains_nocase :: "string \<Rightarrow> string \<Rightarrow> bool" where
  "str_contains_nocase title kw = find_sub (map lower_char title) (map lower_char kw)"

text \<open>The loop \<open>mask = mask | contains(kw)\<close> over the keywords, for one title.\<close>

definition closed_mask :: "string \<Rightarrow> bool" where
  "closed_mask title =
     foldl (\<lambda>mask kw. mask \<or> str_contains_nocase title kw) False CLOSED_HOLIDAY_KEYWORDS"

text \<open>
  \<open>_build_closed_dates_by_division\<close>: the rows whose mask holds, grouped by division;
  each division present gets the set of its rows' dates.
\<close>

definition build_closed_dates_by_division :: "bank_holiday list \<Rightarrow> string \<rightharpoonup> date set" where
  "build_closed_dates_by_division bh =
     (let closed = filter (\<lambda>r. closed_mask (bh_title r)) bh;
          divisions = sort (remdups (map bh_division closed))
      in fold (\<lambda>division out.
                 out(division \<mapsto> set (map bh_date (filter (\<lambda>r. bh_division r = division) closed))))
              divisions Map.empty)"

text \<open>\<open>closed_dates_by_div.get(division, set())\<close>\<close>

definition closed_dates_of :: "(string \<rightharpoonup> date set) \<Rightarrow> string \<Rightarrow> date set" where
  "closed_dates_of closed_by_div division =
     (case closed_by_div division of None \<Rightarrow> {} | Some s \<Rightarrow> s)"

text \<open>
  The closed-day set in the specification's words: the dates of the division's
  bank holidays whose title contains, ignoring case, one of the five keywords.
\<close>

definition SPEC_KEYWORDS :: "string list" where
  "SPEC_KEYWORDS =
     [''Christmas Day'', ''Boxing Day'', ''New Year'', ''Good Friday'', ''Easter Monday'']"

definition closed_day_set :: "bank_holiday list \<Rightarrow> string \<Rightarrow> date set" where
  "closed_day_set bh division =
     {bh_date r | r. r \<in> set bh \<and> bh_division r = division \<and>
        (\<exists>kw \<in> set SPEC_KEYWORDS. str_contains_nocase (bh_title r) kw)}"

section \<open>Booking simulation engine\<close>

text \<open>
  The seeded numpy generator is a state of an arbitrary type \<open>'g\<close>; its sampling
  methods are library code and are taken as parameters: each reads the state and
  returns the draw with the next state. \<open>sample_choice n p\<close> is the index drawn by
  \<open>rng.choice\<close> in a population of size \<open>n\<close> with optional weights \<open>p\<close>.
\<close>

record 'g sampler =
  sample_poisson :: "real \<Rightarrow> 'g \<Rightarrow> int \<times> 'g"
  sample_normal :: "real \<Rightarrow> real \<Rightarrow> 'g \<Rightarrow> real \<times> 'g"
  sample_random :: "'g \<Rightarrow> real \<times> 'g"
  sample_uniform :: "real \<Rightarrow> real \<Rightarrow> 'g \<Rightarrow> real \<times> 'g"
  sample_choice :: "nat \<Rightarrow> real list option \<Rightarrow> 'g \<Rightarrow> nat \<times> 'g"

text \<open>
  \<open>rng.choice(a, p=p)\<close>: raises \<open>ValueError\<close> on an empty population, otherwise
  returns one of its elements.
\<close>

definition rng_choice ::
  "'g sampler \<Rightarrow> int list \<Rightarrow> real list option \<Rightarrow> 'g \<Rightarrow> error + (int \<times> 'g)" where
  "rng_choice S a p g =
     (if a = [] then Inl ValueError
      else case sample_choice S (length a) p g of
             (i, g') \<Rightarrow> Inr (a ! (i mod length a), g'))"

text \<open>\<open>np.clip(x, lo, hi)\<close> is \<open>minimum(maximum(x, lo), hi)\<close>.\<close>

definition np_clip :: "real \<Rightarrow> real \<Rightarrow> real \<Rightarrow> real" where
  "np_clip x lo hi = min (max x lo) hi"

text \<open>
  \<open>round(x, ndigits)\<close> and \<open>ndarray.round(ndigits)\<close>: to the nearest multiple of
  \<open>10 ^ -ndigits\<close>, a tie going to the even one.
\<close>

definition round_half_even :: "real \<Rightarrow> int" where
  "round_half_even x =
     (let f = \<lfloor>x\<rfloor>; r = x - of_int f
      in if r < 1 / 2 then f
         else if 1 / 2 < r then f + 1
         else if even f then f else f + 1)"

definition py_round :: "real \<Rightarrow> nat \<Rightarrow> real" where
  "py_round x ndigits = of_int (round_half_even (x * 10 ^ ndigits)) / 10 ^ ndigits"

definition VAT_RATE :: real where
  "VAT_RATE = 0.20"

definition REGION_UPLIFT :: "string \<rightharpoonup> real" where
  "REGION_UPLIFT =
     [''lake_district'' \<mapsto> 1.35, ''wales'' \<mapsto> 1.15,
      ''peak_district'' \<mapsto> 1.00, ''scotland'' \<mapsto> 0.90]"

definition SEASON_UPLIFT :: "string \<rightharpoonup> real" where
  "SEASON_UPLIFT =
     [''winter'' \<mapsto> 1.30, ''spring'' \<mapsto> 1.00, ''summer'' \<mapsto> 0.85, ''autumn'' \<mapsto> 1.10]"

definition DIFFICULTY_UPLIFT :: "string \<rightharpoonup> real" where
  "DIFFICULTY_UPLIFT =
     [''easy'' \<mapsto> 1.20, ''moderate'' \<mapsto> 1.00, ''hard'' \<mapsto> 0.90, ''severe'' \<mapsto> 0.75]"

definition WEEKEND_UPLIFT :: real where
  "WEEKEND_UPLIFT = 1.20"

definition BANK_HOLIDAY_OPEN_UPLIFT :: real where
  "BANK_HOLIDAY_OPEN_UPLIFT = 1.40"

text \<open>\<open>d.get(k, default)\<close>\<close>

definition dict_get :: "('k \<rightharpoonup> 'v) \<Rightarrow> 'k \<Rightarrow> 'v \<Rightarrow> 'v" where
  "dict_get m k dflt = (case m k of None \<Rightarrow> dflt | Some v \<Rightarrow> v)"

definition price_per_person_ex_vat ::
  "'g sampler \<Rightarrow> real \<Rightarrow> string \<Rightarrow> 'g \<Rightarrow> real \<times> 'g" where
  "price_per_person_ex_vat S duration diff g =
     (let base = 75.0 + duration * 8.0;
          diff_mult = dict_get [''easy'' \<mapsto> 0.95, ''moderate'' \<mapsto> 1.00,
                                ''hard'' \<mapsto> 1.10, ''severe'' \<mapsto> 1.20] diff 1.00
      in case sample_normal S 1.0 0.06 g of
           (noise, g1) \<Rightarrow> (np_clip (base * diff_mult * noise) 60.0 190.0, g1))"

definition party_size :: "'g sampler \<Rightarrow> string \<Rightarrow> 'g \<Rightarrow> error + (int \<times> 'g)" where
  "party_size S diff g =
     (let probs =
            (if diff = ''easy'' then [0.10, 0.25, 0.25, 0.20, 0.12, 0.08]
             else if diff = ''moderate'' then [0.15, 0.28, 0.25, 0.17, 0.10, 0.05]
             else if diff = ''hard'' then [0.22, 0.33, 0.23, 0.13, 0.07, 0.02]
             else [0.30, 0.38, 0.20, 0.08, 0.03, 0.01])
      in rng_choice S [1, 2, 3, 4, 5, 6] (Some probs) g)"

definition discount_flag_and_pct ::
  "'g sampler \<Rightarrow> int \<Rightarrow> string \<Rightarrow> bool \<Rightarrow> 'g \<Rightarrow> (bool \<times> real) \<times> 'g" where
  "discount_flag_and_pct S party season is_weekend g =
     (let base_prob = 0.10;
          base_prob = (if party \<ge> 4 then base_prob + 0.10 else base_prob);
          base_prob = (if season = ''summer'' then base_prob + 0.05 else base_prob);
          base_prob = (if \<not> is_weekend then base_prob + 0.03 else base_prob)
      in case sample_random S g of
           (u, g1) \<Rightarrow>
             if \<not> (u < min base_prob 0.35) then ((False, 0.0), g1)
             else case sample_uniform S 0.05 0.20 g1 of
                    (pct, g2) \<Rightarrow> ((True, pct), g2))"

definition margin_pct :: "'g sampler \<Rightarrow> bool \<Rightarrow> int \<Rightarrow> 'g \<Rightarrow> real \<times> 'g" where
  "margin_pct S discount_flag party g =
     (case sample_uniform S 0.30 0.50 g of
        (m, g1) \<Rightarrow>
          let (m, g2) =
                (if discount_flag
                 then case sample_uniform S 0.03 0.08 g1 of (r, g2) \<Rightarrow> (m - r, g2)
                 else (m, g1));
              m = m + min (of_int (max (party - 2) 0) * 0.008) 0.03
          in (np_clip m 0.30 0.50, g2))"

definition expected_bookings_per_route_day ::
  "string \<Rightarrow> string \<Rightarrow> string \<Rightarrow> bool \<Rightarrow> bool \<Rightarrow> real" where
  "expected_bookings_per_route_day rg season diff is_weekend is_bank_holiday_open =
     (let base = 0.55;
          mu = base;
          mu = mu * dict_get REGION_UPLIFT rg 1.0;
          mu = mu * dict_get SEASON_UPLIFT season 1.0;
          mu = mu * dict_get DIFFICULTY_UPLIFT diff 1.0;
          mu = (if is_weekend then mu * WEEKEND_UPLIFT else mu);
          mu = (if is_bank_holiday_open then mu * BANK_HOLIDAY_OPEN_UPLIFT else mu)
      in np_clip mu 0.05 3.0)"

text \<open>A row of the fact table, field for field as the generator appends it.\<close>

record booking =
  booking_id :: int
  booking_date :: date
  date_key :: int
  b_route_id :: int
  b_region :: string
  b_guide_id :: int
  b_party_size :: int
  b_difficulty :: string
  b_duration_hours :: real
  discount_flag :: int
  discount_pct :: real
  b_price_per_person_ex_vat :: real
  sales_ex_vat :: real
  vat_amount :: real
  sales_inc_vat :: real
  staff_cost :: real
  margin_amount :: real
  b_margin_pct :: real
  b_season :: string
  b_is_weekend :: int
  b_is_bank_holiday :: int
  holiday_division :: string

text \<open>
  The body of the innermost loop: one booking of route \<open>rt\<close> on the day \<open>d\<close>.
  It fails where the guide draw fails.
\<close>

definition make_booking ::
  "'g sampler \<Rightarrow> int list \<Rightarrow> route \<Rightarrow> date_row \<Rightarrow> string \<Rightarrow> bool \<Rightarrow> int \<Rightarrow> 'g
     \<Rightarrow> error + (booking \<times> 'g)" where
  "make_booking S guide_ids rt d division is_bh bid g =
     (case party_size S (difficulty rt) g of
        Inl e \<Rightarrow> Inl e
      | Inr (party, g1) \<Rightarrow>
     (case discount_flag_and_pct S party (dd_season d) (dd_is_weekend d) g1 of
        ((dflag, dpct), g2) \<Rightarrow>
     (case price_per_person_ex_vat S (duration_hours rt) (difficulty rt) g2 of
        (ppp, g3) \<Rightarrow>
     (let list_value_ex_vat = ppp * of_int party;
          discount_value = (if dflag then list_value_ex_vat * dpct else 0.0);
          sales = max (list_value_ex_vat - discount_value) 0.0
      in case margin_pct S dflag party g3 of
        (mpct, g4) \<Rightarrow>
     (let margin = sales * mpct;
          total_cost = max (sales - margin) 0.0
      in case sample_normal S 0.62 0.06 g4 of
        (sn, g5) \<Rightarrow>
     (let staff_share = np_clip sn 0.50 0.75;
          staff = total_cost * staff_share;
          vat = sales * VAT_RATE;
          inc = sales + vat
      in case rng_choice S guide_ids None g5 of
        Inl e \<Rightarrow> Inl e
      | Inr (gid, g6) \<Rightarrow>
          Inr (\<lparr>booking_id = bid,
                booking_date = dd_date d,
                date_key = date_key_of (dd_date d),
                b_route_id = route_id rt,
                b_region = region rt,
                b_guide_id = gid,
                b_party_size = party,
                b_difficulty = difficulty rt,
                b_duration_hours = py_round (duration_hours rt) 2,
                discount_flag = (if dflag then 1 else 0),
                discount_pct = py_round dpct 4,
                b_price_per_person_ex_vat = py_round ppp 2,
                sales_ex_vat = py_round sales 2,
                vat_amount = py_round vat 2,
                sales_inc_vat = py_round inc 2,
                staff_cost = py_round staff 2,
                margin_amount = py_round margin 2,
                b_margin_pct = py_round mpct 4,
                b_season = dd_season d,
                b_is_weekend = (if dd_is_weekend d then 1 else 0),
                b_is_bank_holiday = (if is_bh then 1 else 0),
                holiday_division = division\<rparr>, g6)))))))"

text \<open>
  The loop state: the generator, the next booking id and the rows appended so far.
  \<open>for _ in range(n)\<close>:
\<close>

type_synonym 'g gen_state = "'g \<times> int \<times> booking list"

fun bookings_loop ::
  "'g sampler \<Rightarrow> int list \<Rightarrow> route \<Rightarrow> date_row \<Rightarrow> string \<Rightarrow> bool \<Rightarrow> nat \<Rightarrow> 'g gen_state
     \<Rightarrow> error + 'g gen_state" where
  "bookings_loop S guide_ids rt d division is_bh 0 st = Inr st"
| "bookings_loop S guide_ids rt d division is_bh (Suc k) (g, bid, rows) =
     (case make_booking S guide_ids rt d division is_bh bid g of
        Inl e \<Rightarrow> Inl e
      | Inr (b, g') \<Rightarrow>
          bookings_loop S guide_ids rt d division is_bh k (g', bid + 1, rows @ [b]))"

text \<open>One pass of \<open>for _, d in dates.iterrows()\<close>: the route-day (rt, d).\<close>

definition route_day ::
  "'g sampler \<Rightarrow> int list \<Rightarrow> date set \<Rightarrow> string \<Rightarrow> route \<Rightarrow> date_row \<Rightarrow> 'g gen_state
     \<Rightarrow> error + 'g gen_state" where
  "route_day S guide_ids closed_dates division rt d st =
     (let dt = dd_date d;
          is_bh = (if division = ''scotland'' then dd_is_bank_holiday_scotland d
                   else if division = ''northern-ireland''
                   then dd_is_bank_holiday_northern_ireland d
                   else dd_is_bank_holiday_england_wales d)
      in if dt \<in> closed_dates then Inr st
         else
           let mu = expected_bookings_per_route_day (region rt) (dd_season d) (difficulty rt)
                      (dd_is_weekend d) is_bh
           in case st of (g, bid, rows) \<Rightarrow>
                case sample_poisson S mu g of
                  (n, g1) \<Rightarrow>
                    if n \<le> 0 then Inr (g1, bid, rows)
                    else bookings_loop S guide_ids rt d division is_bh (nat n) (g1, bid, rows))"

fun dates_loop ::
  "'g sampler \<Rightarrow> int list \<Rightarrow> date set \<Rightarrow> string \<Rightarrow> route \<Rightarrow> date_row list \<Rightarrow> 'g gen_state
     \<Rightarrow> error + 'g gen_state" where
  "dates_loop S guide_ids closed_dates division rt [] st = Inr st"
| "dates_loop S guide_ids closed_dates division rt (d # ds) st =
     (case route_day S guide_ids closed_dates division rt d st of
        Inl e \<Rightarrow> Inl e
      | Inr st' \<Rightarrow> dates_loop S guide_ids closed_dates division rt ds st')"

text \<open>\<open>for _, rt in routes.iterrows()\<close>\<close>

fun routes_loop ::
  "'g sampler \<Rightarrow> int list \<Rightarrow> (string \<rightharpoonup> date set) \<Rightarrow> region_division \<Rightarrow> date_row list
     \<Rightarrow> route list \<Rightarrow> 'g gen_state \<Rightarrow> error + 'g gen_state" where
  "routes_loop S guide_ids closed_by_div region_div dates [] st = Inr st"
| "routes_loop S guide_ids closed_by_div region_div dates (rt # rts) st =
     (let division = division_of_region region_div (region rt);
          closed_dates = closed_dates_of closed_by_div division
      in case dates_loop S guide_ids closed_dates division rt dates st of
           Inl e \<Rightarrow> Inl e
         | Inr st' \<Rightarrow> routes_loop S guide_ids closed_by_div region_div dates rts st')"

text \<open>The tables \<open>_load_inputs\<close> reads (the bridge table is read and not used).\<close>

record inputs =
  in_routes :: "route list"
  in_guides :: "guide list"
  in_dates :: "date_row list"
  in_bh :: "bank_holiday list"
  in_region_div :: region_division

text \<open>\<open>_load_inputs\<close> keeps the days of 2024 and 2025.\<close>

definition load_dates :: "date_row list \<Rightarrow> date_row list" where
  "load_dates dates =
     filter (\<lambda>d. date_le (2024, 1, 1) (dd_date d) \<and> date_le (dd_date d) (2025, 12, 31)) dates"

text \<open>
  \<open>generate_fact_bookings\<close>: the fact table written, or the exception that ends the
  run before anything is written. \<open>g0\<close> is \<open>default_rng(RANDOM_SEED)\<close>.
\<close>

definition generate_fact_bookings :: "'g sampler \<Rightarrow> 'g \<Rightarrow> inputs \<Rightarrow> error + booking list" where
  "generate_fact_bookings S g0 inp =
     (let dates = load_dates (in_dates inp);
          closed_dates_by_div = build_closed_dates_by_division (in_bh inp);
          guide_ids = map guide_id (in_guides inp)
      in case routes_loop S guide_ids closed_dates_by_div (in_region_div inp) dates
                (in_routes inp) (g0, 1, []) of
           Inl e \<Rightarrow> Inl e
         | Inr (g, bid, rows) \<Rightarrow> Inr rows)"

subsection \<open>The Poisson draws of a run\<close>

text \<open>
  The route-days that are not closed, in the order the two loops visit them, each with
  the mean the run passes to \<open>rng.poisson\<close>.
\<close>

definition route_day_mu :: "string \<Rightarrow> route \<Rightarrow> date_row \<Rightarrow> real" where
  "route_day_mu division rt d =
     expected_bookings_per_route_day (region rt) (dd_season d) (difficulty rt) (dd_is_weekend d)
       (if division = ''scotland'' then dd_is_bank_holiday_scotland d
        else if division = ''northern-ireland'' then dd_is_bank_holiday_northern_ireland d
        else dd_is_bank_holiday_england_wales d)"

definition open_day_mus :: "date set \<Rightarrow> string \<Rightarrow> route \<Rightarrow> date_row list \<Rightarrow> real list" where
  "open_day_mus closed_dates division rt dates =
     map (route_day_mu division rt) (filter (\<lambda>d. dd_date d \<notin> closed_dates) dates)"

definition open_route_day_mus :: "inputs \<Rightarrow> real list" where
  "open_route_day_mus inp =
     concat (map (\<lambda>rt.
        let division = division_of_region (in_region_div inp) (region rt)
        in open_day_mus (closed_dates_of (build_closed_dates_by_division (in_bh inp)) division)
             division rt (load_dates (in_dates inp)))
      (in_routes inp))"

text \<open>
  Drawing the counts for a list of means, one after the other from the generator:
  whether no count is positive, and the generator after the draws.
\<close>

fun no_positive_count :: "'g sampler \<Rightarrow> real list \<Rightarrow> 'g \<Rightarrow> bool" where
  "no_positive_count S [] g = True"
| "no_positive_count S (mu # mus) g =
     (case sample_poisson S mu g of (n, g') \<Rightarrow> n \<le> 0 \<and> no_positive_count S mus g')"

fun after_counts :: "'g sampler \<Rightarrow> real list \<Rightarrow> 'g \<Rightarrow> 'g" where
  "after_counts S [] g = g"
| "after_counts S (mu # mus) g =
     (case sample_poisson S mu g of (n, g') \<Rightarrow> after_counts S mus g')"

section \<open>Aggregation layer: route-day grain\<close>

text \<open>
  pandas divides columns element-wise and does not raise on a zero denominator: the
  quotient is then infinite or NaN. Such a quotient is \<open>None\<close> here.
\<close>

definition pd_div :: "real \<Rightarrow> real \<Rightarrow> real option" where
  "pd_div a b = (if b = 0 then None else Some (a / b))"

text \<open>
  \<open>left.merge(right, on=key, how="left")\<close>: every left row, in order, once per
  matching right row, or once with the right columns missing when none matches.
\<close>

definition left_merge ::
  "('a \<Rightarrow> 'k) \<Rightarrow> ('b \<Rightarrow> 'k) \<Rightarrow> 'a list \<Rightarrow> 'b list \<Rightarrow> ('a \<times> 'b option) list" where
  "left_merge kl kr ls rs =
     concat (map (\<lambda>l. case filter (\<lambda>r. kr r = kl l) rs of
                           [] \<Rightarrow> [(l, None)]
                         | ms \<Rightarrow> map (\<lambda>r. (l, Some r)) ms) ls)"

text \<open>One row of \<open>grp\<close>: the group key and the aggregates of the group.\<close>

record route_day_agg =
  rd_date_key :: int
  rd_route_id :: int
  rd_region :: string
  bookings_count :: int
  party_size_total :: int
  party_size_avg :: "real option"
  rd_sales_ex_vat :: real
  rd_vat_amount :: real
  rd_sales_inc_vat :: real
  rd_staff_cost :: real
  rd_margin_amount :: real
  discount_bookings :: int
  discount_rate :: "real option"
  margin_pct_weighted :: "real option"

definition group_key :: "booking \<Rightarrow> int \<times> int \<times> string" where
  "group_key b = (date_key b, b_route_id b, b_region b)"

text \<open>
  The aggregates of one group \<open>g\<close> with key \<open>k\<close>, and the two derived columns.
  \<open>count\<close> counts the group's \<open>booking_id\<close> values; \<open>.replace(0, pd.NA)\<close> makes a
  zero \<open>sales_ex_vat\<close> missing, and so the weighted margin.
\<close>

definition aggregate :: "int \<times> int \<times> string \<Rightarrow> booking list \<Rightarrow> route_day_agg" where
  "aggregate k g =
     (let cnt = int (length (map booking_id g));
          party_total = sum_list (map b_party_size g);
          sales = sum_list (map sales_ex_vat g);
          margin = sum_list (map margin_amount g);
          disc = sum_list (map discount_flag g)
      in \<lparr>rd_date_key = fst k,
          rd_route_id = fst (snd k),
          rd_region = snd (snd k),
          bookings_count = cnt,
          party_size_total = party_total,
          party_size_avg = pd_div (of_int party_total) (of_int cnt),
          rd_sales_ex_vat = sales,
          rd_vat_amount = sum_list (map vat_amount g),
          rd_sales_inc_vat = sum_list (map sales_inc_vat g),
          rd_staff_cost = sum_list (map staff_cost g),
          rd_margin_amount = margin,
          discount_bookings = disc,
          discount_rate = pd_div (of_int disc) (of_int cnt),
          margin_pct_weighted = (if sales = 0 then None else pd_div margin sales)\<rparr>)"

text \<open>
  \<open>fact.groupby(["date_key", "route_id", "region"], as_index=False).agg(...)\<close>: one
  row per key that occurs in the fact table, keys in ascending order.
\<close>

definition groupby_agg :: "booking list \<Rightarrow> route_day_agg list" where
  "groupby_agg fact_bookings =
     map (\<lambda>k. aggregate k (filter (\<lambda>b. group_key b = k) fact_bookings))
       (sort (remdups (map group_key fact_bookings)))"

text \<open>
  \<open>build_route_day\<close>: the aggregate, left-joined with the calendar on \<open>date_key\<close> and
  with the route attributes on \<open>route_id\<close>, sorted by (date_key, route_id). The order
  of the columns is not modelled.
\<close>

type_synonym route_day_row = "(route_day_agg \<times> date_row option) \<times> route option"

definition build_route_day ::
  "booking list \<Rightarrow> date_row list \<Rightarrow> route list \<Rightarrow> route_day_row list" where
  "build_route_day fact_bookings dim_date dim_route =
     (let grp = groupby_agg fact_bookings;
          model = left_merge rd_date_key dd_date_key grp dim_date;
          model = left_merge (\<lambda>m. rd_route_id (fst m)) route_id model dim_route
      in sort_key (\<lambda>m. (rd_date_key (fst (fst m)), rd_route_id (fst (fst m)))) model)"

section \<open>Feature-engineering layer: the 2026 scoring frame\<close>

text \<open>The columns of \<open>dim_date.csv\<close>, in the order \<open>build_dim_date\<close> creates them.\<close>

definition DIM_DATE_COLUMNS :: "string list" where
  "DIM_DATE_COLUMNS =
     [''date'', ''date_key'', ''year'', ''quarter'', ''month'', ''month_name'', ''day'',
      ''day_name'', ''iso_year'', ''iso_week'', ''iso_day'', ''is_weekend'', ''season'',
      ''is_bank_holiday_any'', ''is_bank_holiday_england_wales'',
      ''is_bank_holiday_scotland'', ''is_bank_holiday_northern_ireland'']"

text \<open>
  \<open>dim_route[["route_id", "region", "difficulty", "distance_km", "duration_hours"]]\<close>
\<close>

record route_scaffold =
  rs_route_id :: int
  rs_region :: string
  rs_difficulty :: string
  rs_distance_km :: real
  rs_duration_hours :: real

definition ROUTE_SCAFFOLD_COLUMNS :: "string list" where
  "ROUTE_SCAFFOLD_COLUMNS =
     [''route_id'', ''region'', ''difficulty'', ''distance_km'', ''duration_hours'']"

definition route_scaffold_of :: "route \<Rightarrow> route_scaffold" where
  "route_scaffold_of rt =
     \<lparr>rs_route_id = route_id rt, rs_region = region rt, rs_difficulty = difficulty rt,
      rs_distance_km = distance_km rt, rs_duration_hours = duration_hours rt\<rparr>"

text \<open>
  \<open>d26.merge(routes, on="key", how="outer")\<close> with the constant key 1 on both sides:
  the cross product, left rows outermost; when one side has no row, the rows of the
  other side with the missing side's columns empty.
\<close>

definition outer_merge_on_key :: "'a list \<Rightarrow> 'b list \<Rightarrow> ('a option \<times> 'b option) list" where
  "outer_merge_on_key ls rs =
     (if ls = [] then map (\<lambda>r. (None, Some r)) rs
      else if rs = [] then map (\<lambda>l. (Some l, None)) ls
      else concat (map (\<lambda>l. map (\<lambda>r. (Some l, Some r)) rs) ls))"

text \<open>A row of the scoring frame before the categorical columns are encoded.\<close>

record scoring_row =
  sr_day :: "date_row option"
  sr_route :: "route_scaffold option"
  sr_division :: string
  is_bank_holiday_division :: int
  is_closed_day :: int

text \<open>
  The row function \<open>div_bh\<close>: \<open>int(...)\<close> of the flag of the row's division. On a row
  without calendar columns the flag is NaN and \<open>int\<close> raises.
\<close>

definition div_bh :: "string \<Rightarrow> date_row option \<Rightarrow> error + int" where
  "div_bh division day =
     (case day of
        None \<Rightarrow> Inl ValueError
      | Some d \<Rightarrow>
          if division = ''scotland'' then Inr (of_bool (dd_is_bank_holiday_scotland d))
          else if division = ''northern-ireland''
          then Inr (of_bool (dd_is_bank_holiday_northern_ireland d))
          else Inr (of_bool (dd_is_bank_holiday_england_wales d)))"

text \<open>
  One row of \<open>base\<close> after the left join with the region table, through the two
  \<open>apply\<close> steps: \<open>division.fillna\<close>, \<open>div_bh\<close>, \<open>is_closed_day\<close>.
\<close>

definition enrich_row ::
  "(string \<rightharpoonup> date set) \<Rightarrow>
   (date_row option \<times> route_scaffold option) \<times> (string \<times> string) option \<Rightarrow> error + scoring_row" where
  "enrich_row closed_by_div m =
     (case m of ((day, rt), rd) \<Rightarrow>
        let division = (case rd of None \<Rightarrow> DEFAULT_DIVISION | Some (rg, dv) \<Rightarrow> dv)
        in case div_bh division day of
             Inl e \<Rightarrow> Inl e
           | Inr flag \<Rightarrow>
               (case day of
                  None \<Rightarrow> Inl ValueError
                | Some d \<Rightarrow>
                    Inr \<lparr>sr_day = day, sr_route = rt, sr_division = division,
                         is_bank_holiday_division = flag,
                         is_closed_day =
                           of_bool (dd_date d \<in> closed_dates_of closed_by_div division)\<rparr>))"

fun enrich_rows ::
  "(string \<rightharpoonup> date set) \<Rightarrow>
   ((date_row option \<times> route_scaffold option) \<times> (string \<times> string) option) list
     \<Rightarrow> error + scoring_row list" where
  "enrich_rows closed_by_div [] = Inr []"
| "enrich_rows closed_by_div (m # ms) =
     (case enrich_row closed_by_div m of
        Inl e \<Rightarrow> Inl e
      | Inr r \<Rightarrow>
          (case enrich_rows closed_by_div ms of
             Inl e \<Rightarrow> Inl e
           | Inr rs \<Rightarrow> Inr (r # rs)))"

definition KEEP_COLUMNS :: "string list" where
  "KEEP_COLUMNS =
     [''date_key'', ''date'', ''year'', ''quarter'', ''month'', ''iso_week'', ''day_name'',
      ''is_weekend'', ''season'', ''route_id'', ''region'', ''difficulty'', ''distance_km'',
      ''duration_hours'', ''is_bank_holiday_england_wales'', ''is_bank_holiday_scotland'',
      ''is_bank_holiday_northern_ireland'', ''is_bank_holiday_any'',
      ''is_bank_holiday_division'', ''is_closed_day'', ''division'']"

definition CAT_COLUMNS :: "string list" where
  "CAT_COLUMNS = [''region'', ''difficulty'', ''season'', ''day_name'']"

text \<open>The values of a categorical column, one per row that has one.\<close>

definition cat_values :: "string \<Rightarrow> scoring_row list \<Rightarrow> string list" where
  "cat_values c rows =
     (if c = ''region'' then map rs_region (List.map_filter sr_route rows)
      else if c = ''difficulty'' then map rs_difficulty (List.map_filter sr_route rows)
      else if c = ''season'' then map dd_season (List.map_filter sr_day rows)
      else if c = ''day_name'' then map dd_day_name (List.map_filter sr_day rows)
      else [])"

text \<open>
  The columns of \<open>pd.get_dummies(df, columns=existing)\<close>: the other columns in order,
  then for each encoded column one column \<open>column_value\<close> per value, values ascending.
\<close>

definition get_dummies_columns :: "string list \<Rightarrow> string list \<Rightarrow> scoring_row list \<Rightarrow> string list" where
  "get_dummies_columns columns existing rows =
     filter (\<lambda>c. c \<notin> set existing) columns @
     concat (map (\<lambda>c. map (\<lambda>v. c @ ''_'' @ v) (sort (remdups (cat_values c rows)))) existing)"

text \<open>\<open>_encode_categoricals\<close>: the encoded frame's columns and the feature columns.\<close>

definition encode_categoricals :: "string list \<Rightarrow> scoring_row list \<Rightarrow> string list \<times> string list" where
  "encode_categoricals columns rows =
     (let existing = filter (\<lambda>c. c \<in> set columns) CAT_COLUMNS;
          columns2 = get_dummies_columns columns existing rows;
          feature_cols = filter (\<lambda>c. c \<noteq> ''bookings_count'') columns2
      in (columns2, feature_cols))"

text \<open>The frame returned: its column names and its rows.\<close>

record scoring_frame =
  sf_columns :: "string list"
  sf_rows :: "scoring_row list"

definition dates_2026 :: "date_row list \<Rightarrow> date_row list" where
  "dates_2026 dim_date =
     filter (\<lambda>d. date_le (2026, 1, 1) (dd_date d) \<and> date_le (dd_date d) (2026, 12, 31)) dim_date"

text \<open>
  \<open>build_scoring_frame_2026\<close>. \<open>DataFrame.apply(..., axis=1)\<close> on a frame without
  rows returns a frame, and assigning it to one column raises.
\<close>

definition build_scoring_frame_2026 ::
  "date_row list \<Rightarrow> route list \<Rightarrow> region_division \<Rightarrow> bank_holiday list
     \<Rightarrow> error + (scoring_frame \<times> string list)" where
  "build_scoring_frame_2026 dim_date dim_route region_div bh =
     (let d26 = dates_2026 dim_date;
          routes = map route_scaffold_of dim_route;
          base = outer_merge_on_key d26 routes;
          base_columns = DIM_DATE_COLUMNS @ ROUTE_SCAFFOLD_COLUMNS;
          base = left_merge (\<lambda>m. map_option rs_region (snd m)) (\<lambda>rd. Some (fst rd)) base region_div;
          base_columns = base_columns @ [''division''];
          closed_by_div = build_closed_dates_by_division bh
      in if base = [] then Inl ValueError
         else case enrich_rows closed_by_div base of
           Inl e \<Rightarrow> Inl e
         | Inr rows \<Rightarrow>
             let base_columns = base_columns @ [''is_bank_holiday_division'', ''is_closed_day''];
                 kept = filter (\<lambda>c. c \<in> set base_columns) KEEP_COLUMNS;
                 (encoded, feature_cols) = encode_categoricals kept rows;
                 encoded = filter (\<lambda>c. c \<notin> set [''date'', ''division'']) encoded;
                 feature_cols = filter (\<lambda>c. c \<noteq> ''bookings_count'') encoded
             in Inr (\<lparr>sf_columns = encoded, sf_rows = rows\<rparr>, feature_cols))"

section \<open>Forecast harness: scoring\<close>

text \<open>
  \<open>predict\<close>, from the raw outputs \<open>model.predict(X)\<close> on: clip below at 0, round to 3
  places, assign as a column (lengths must agree), zero the closed days. The forecast
  is the frame's rows, each with its \<open>predicted_bookings_count\<close>.
\<close>

definition predict :: "scoring_frame \<Rightarrow> real list \<Rightarrow> error + (scoring_row \<times> real) list" where
  "predict df26 raw =
     (let preds = map (\<lambda>p. max p 0) raw;
          rounded = map (\<lambda>p. py_round p 3) preds
      in if length rounded \<noteq> length (sf_rows df26) then Inl ValueError
         else
           let out = zip (sf_rows df26) rounded
           in if ''is_closed_day'' \<in> set (sf_columns df26)
              then Inr (map (\<lambda>(r, p). if is_closed_day r = 1 then (r, 0.0) else (r, p)) out)
              else Inr out)"

section \<open>Example data\<close>

text \<open>
  A small run: the route of the specification's scenario, Christmas Day 2024 (closed in
  England and Wales) and the open Friday after it, one guide, and a sampler over a
  counter that draws two bookings on every open route-day.
\<close>

definition ex_sampler :: "nat sampler" where
  "ex_sampler =
     \<lparr>sample_poisson = (\<lambda>mu g. (2, Suc g)),
      sample_normal = (\<lambda>loc scale g. (loc + scale, Suc g)),
      sample_random = (\<lambda>g. (if even g then 0 else 0.9, Suc g)),
      sample_uniform = (\<lambda>lo hi g. ((lo + hi) / 2, Suc g)),
      sample_choice = (\<lambda>n p g. (g, Suc g))\<rparr>"

definition ex_route :: route where
  "ex_route =
     \<lparr>route_id = 1, route_name = ''Scafell Pike'', region = ''lake_district'',
      gpx_path = [], distance_km = 12, duration_hours = 6, difficulty = ''moderate'',
      route_lat = 54.5, route_lon = -3.2\<rparr>"

text \<open>
  A calendar row from its date, quarter, month name, day name, ISO (year, week, day),
  season and bank-holiday flag (the same in the three divisions).
\<close>

definition ex_day ::
  "date \<Rightarrow> int \<Rightarrow> string \<Rightarrow> string \<Rightarrow> int \<times> int \<times> int \<Rightarrow> string \<Rightarrow> bool \<Rightarrow> date_row" where
  "ex_day dt quarter month_name day_name iso_ywd season bh =
     \<lparr>dd_date = dt, dd_date_key = date_key_of dt, dd_year = fst dt, dd_quarter = quarter,
      dd_month = fst (snd dt), dd_month_name = month_name, dd_day = snd (snd dt),
      dd_day_name = day_name, dd_iso_year = fst iso_ywd, dd_iso_week = fst (snd iso_ywd),
      dd_iso_day = snd (snd iso_ywd),
      dd_is_weekend = (day_name = ''Saturday'' \<or> day_name = ''Sunday''),
      dd_season = season, dd_is_bank_holiday_any = bh,
      dd_is_bank_holiday_england_wales = bh, dd_is_bank_holiday_scotland = bh,
      dd_is_bank_holiday_northern_ireland = bh\<rparr>"

definition ex_guide :: guide where
  "ex_guide = \<lparr>guide_id = 7, guide_name = ''Ann'', email = [], phone = [], bio = []\<rparr>"

definition ex_christmas :: bank_holiday where
  "ex_christmas =
     \<lparr>bh_id = 1, bh_date = (2024, 12, 25), bh_division = ''england-and-wales'',
      bh_title = ''Christmas Day'', bh_notes = [], bh_bunting = True\<rparr>"

text \<open>The table \<open>build_dim_region_division\<close> writes.\<close>

definition dim_region_division :: region_division where
  "dim_region_division =
     [(''lake_district'', ''england-and-wales''),
      (''peak_district'', ''england-and-wales''),
      (''wales'', ''england-and-wales''),
      (''scotland'', ''scotland'')]"

definition ex_inputs :: inputs where
  "ex_inputs =
     \<lparr>in_routes = [ex_route],
      in_guides = [ex_guide],
      in_dates =
        [ex_day (2024, 12, 25) 4 ''December'' ''Wednesday'' (2024, 52, 3) ''winter'' True,
         ex_day (2024, 12, 27) 4 ''December'' ''Friday'' (2024, 52, 5) ''winter'' False],
      in_bh = [ex_christmas],
      in_region_div = dim_region_division\<rparr>"

text \<open>The same run with an empty guide table, and a sampler that never draws a booking.\<close>

definition ex_inputs_no_guides :: inputs where
  "ex_inputs_no_guides = ex_inputs\<lparr>in_guides := []\<rparr>"

definition ex_sampler_idle :: "nat sampler" where
  "ex_sampler_idle = ex_sampler\<lparr>sample_poisson := (\<lambda>mu g. (0, Suc g))\<rparr>"

text \<open>Three bookings on two route-days, two of them discounted.\<close>

definition ex_booking :: "int \<Rightarrow> date \<Rightarrow> int \<Rightarrow> booking" where
  "ex_booking bid dt flag =
     \<lparr>booking_id = bid, booking_date = dt, date_key = date_key_of dt, b_route_id = 1,
      b_region = ''lake_district'', b_guide_id = 7, b_party_size = 2,
      b_difficulty = ''moderate'', b_duration_hours = 6, discount_flag = flag,
      discount_pct = 0.1, b_price_per_person_ex_vat = 120, sales_ex_vat = 216,
      vat_amount = 43.2, sales_inc_vat = 259.2, staff_cost = 80, margin_amount = 86.4,
      b_margin_pct = 0.4, b_season = ''winter'', b_is_weekend = 0, b_is_bank_holiday = 0,
      holiday_division = ''england-and-wales''\<rparr>"

definition ex_fact :: "booking list" where
  "ex_fact =
     [ex_booking 1 (2024, 12, 27) 1, ex_booking 2 (2024, 12, 28) 0,
      ex_booking 3 (2024, 12, 27) 1]"

text \<open>
  A calendar with the last day of 2025, Good Friday 2026 and the Saturday after it;
  the holiday table of that Good Friday; two routes, one of them in Scotland.
\<close>

definition ex_dim_date_2026 :: "date_row list" where
  "ex_dim_date_2026 =
     [ex_day (2025, 12, 31) 4 ''December'' ''Wednesday'' (2026, 1, 3) ''winter'' False,
      ex_day (2026, 4, 3) 2 ''April'' ''Friday'' (2026, 14, 5) ''spring'' True,
      ex_day (2026, 4, 4) 2 ''April'' ''Saturday'' (2026, 14, 6) ''spring'' False]"

definition ex_good_friday :: bank_holiday where
  "ex_good_friday =
     \<lparr>bh_id = 2, bh_date = (2026, 4, 3), bh_division = ''england-and-wales'',
      bh_title = ''Good Friday'', bh_notes = [], bh_bunting = False\<rparr>"

definition ex_routes :: "route list" where
  "ex_routes =
     [ex_route,
      ex_route\<lparr>route_id := 2, route_name := ''Ben Nevis'', region := ''scotland''\<rparr>]"
section \<open>Proofs: the key-to-unit hash\<close>

lemma uint_of_char8: "uint (of_char c :: 8 word) = of_char c"
proof -
  have "(of_char c :: 8 word) = of_nat (of_char c)"
    by (simp only: of_nat_of_char)
  then have "unat (of_char c :: 8 word) = (of_char c :: nat) mod 2 ^ 8"
    by (simp add: unat_of_nat del: of_nat_of_char of_char_of)
  also have "\<dots> = of_char c"
    using of_char_mod_256 [of c, where ?'a = nat] by simp
  finally have "int (unat (of_char c :: 8 word)) = int (of_char c)"
    by simp
  then show ?thesis
    by (simp only: of_nat_of_char of_nat_unat)
qed

lemma uint_byte_of_char: "uint (ucast (of_char c :: 8 word) :: 32 word) = of_char c"
  by (simp add: uint_up_ucast is_up uint_of_char8 del: of_char_of)

lemma hash_step_word:
  "hash_step (uint (w :: 32 word)) (of_char c) =
   uint ((w XOR ucast (of_char c :: 8 word)) * 16777619)"
proof -
  have m: "(0xFFFFFFFF :: int) = mask 32"
    by (simp add: mask_eq_exp_minus_1)
  have p: "uint (16777619 :: 32 word) = 16777619"
    by simp
  have "uint ((w XOR ucast (of_char c :: 8 word)) * 16777619) =
        take_bit 32 ((uint w XOR of_char c) * 16777619)"
    unfolding uint_word_arith_bintrs uint_xor uint_byte_of_char p by simp
  then show ?thesis
    unfolding hash_step_def Let_def m by (simp only: take_bit_eq_mask)
qed

lemma foldl_hash_step_word:
  "foldl hash_step (uint (w :: 32 word)) (map of_char x) =
   uint (foldl (\<lambda>h b. (h XOR ucast b) * 16777619) w (map of_char x :: 8 word list))"
  by (induction x arbitrary: w) (simp_all add: hash_step_word del: of_char_of)

lemma hash_loop_word:
  "foldl hash_step 2166136261 (encode_utf8 x) = uint (fnv1a32 (key_bytes x))"
proof -
  have i: "(2166136261 :: int) = uint (2166136261 :: 32 word)"
    by simp
  show ?thesis
    unfolding encode_utf8_def fnv1a32_def key_bytes_def
    by (subst i) (rule foldl_hash_step_word)
qed

lemma hash_step_eq_unit_step: "hash_step = unit_step"
  by (intro ext) (simp add: hash_step_def unit_step_def)

text \<open>
  Claim C2. For every key, \<open>_stable_hash_to_unit\<close> returns a value in the interval
  [0,1) and that value is the reference one: the 32-bit FNV-1a hash of the key's bytes
  modulo 10,000,000, divided by 10,000,000. Being a HOL function of the byte sequence,
  the same key always gives the same value.
\<close>

theorem stable_hash_to_unit_spec:
  "0 \<le> stable_hash_to_unit x \<and> stable_hash_to_unit x < 1 \<and>
   stable_hash_to_unit x = hash_to_unit_spec x"
proof -
  let ?w = "fnv1a32 (key_bytes x)"
  have eq: "stable_hash_to_unit x = hash_to_unit_spec x"
  proof -
    have "uint ?w mod 10000000 = int (unat ?w mod 10000000)"
      by (simp add: zmod_int)
    then show ?thesis
      unfolding stable_hash_to_unit_def hash_to_unit_spec_def Let_def hash_loop_word
      by (simp only: of_int_of_nat_eq)
  qed
  have "unat ?w mod 10000000 < 10000000"
    by simp
  then have "real (unat ?w mod 10000000) < 10000000"
    by (metis of_nat_less_iff of_nat_numeral)
  then have "hash_to_unit_spec x < 1" "0 \<le> hash_to_unit_spec x"
    unfolding hash_to_unit_spec_def by simp_all
  with eq show ?thesis
    by simp
qed

text \<open>
  Claim C9. The route builder's \<open>_stable_hash_to_unit\<close> and the v2 feature layer's
  \<open>_stable_unit\<close> are extensionally equal: they return the same value on every key.
\<close>

theorem stable_hash_to_unit_eq_stable_unit:
  "stable_hash_to_unit s = stable_unit s"
  by (simp add: stable_hash_to_unit_def stable_unit_def hash_step_eq_unit_step)

section \<open>Proofs: rounding and clipping\<close>


lemma round_half_even_cases:
  "round_half_even x = \<lfloor>x\<rfloor> \<or> round_half_even x = \<lfloor>x\<rfloor> + 1"
  by (simp add: round_half_even_def Let_def)

lemma round_half_even_err: "\<bar>of_int (round_half_even x) - x\<bar> \<le> 1 / 2"
  unfolding round_half_even_def Let_def
  by (auto simp: abs_le_iff; linarith)

lemma round_half_even_ge: "of_int k \<le> x \<Longrightarrow> k \<le> round_half_even x"
proof -
  assume "of_int k \<le> x"
  then have "k \<le> \<lfloor>x\<rfloor>" by (simp add: le_floor_iff)
  then show ?thesis using round_half_even_cases [of x] by auto
qed

lemma round_half_even_le: "x \<le> of_int k \<Longrightarrow> round_half_even x \<le> k"
proof -
  assume a: "x \<le> of_int k"
  show ?thesis
  proof (cases "x = of_int k")
    case True
    then show ?thesis by (simp add: round_half_even_def)
  next
    case False
    with a have "x < of_int k" by simp
    then have "\<lfloor>x\<rfloor> < k" by (simp add: floor_less_iff)
    then show ?thesis using round_half_even_cases [of x] by auto
  qed
qed

lemma py_round_err2: "\<bar>py_round x 2 - x\<bar> \<le> 0.005"
proof -
  have "\<bar>of_int (round_half_even (x * 100)) - x * 100\<bar> \<le> 1 / 2"
    by (rule round_half_even_err)
  then show ?thesis
    unfolding py_round_def by (simp add: abs_le_iff field_simps)
qed

lemma py_round4_bounds:
  assumes "0.30 \<le> x" "x \<le> 0.50"
  shows "0.30 \<le> py_round x 4 \<and> py_round x 4 \<le> 0.50"
proof -
  have "of_int 3000 \<le> x * 10 ^ 4" using assms(1) by simp
  then have l: "3000 \<le> round_half_even (x * 10 ^ 4)" by (rule round_half_even_ge)
  have "x * 10 ^ 4 \<le> of_int 5000" using assms(2) by simp
  then have u: "round_half_even (x * 10 ^ 4) \<le> 5000" by (rule round_half_even_le)
  from l have "(3000::real) \<le> of_int (round_half_even (x * 10 ^ 4))" by linarith
  moreover from u have "of_int (round_half_even (x * 10 ^ 4)) \<le> (5000::real)" by linarith
  ultimately show ?thesis
    unfolding py_round_def by (simp add: field_simps)
qed

lemma vat_arith:
  fixes a v i x :: real
  assumes "\<bar>a - x\<bar> \<le> 0.005" "\<bar>v - x * 0.20\<bar> \<le> 0.005"
    "\<bar>i - (x + x * 0.20)\<bar> \<le> 0.005"
  shows "\<bar>v - a * 0.20\<bar> \<le> 0.03 \<and> \<bar>i - (a + v)\<bar> \<le> 0.03"
  using assms unfolding abs_le_iff by simp

lemma np_clip_bounds: "lo \<le> hi \<Longrightarrow> lo \<le> np_clip x lo hi \<and> np_clip x lo hi \<le> hi"
  by (simp add: np_clip_def)

lemma margin_pct_clipped:
  "\<exists>x. fst (margin_pct S dflag party g) = np_clip x 0.30 0.50"
  unfolding margin_pct_def Let_def
  by (cases "sample_uniform S 0.30 0.50 g"; cases dflag) (auto split: prod.splits)

lemma margin_pct_bounds:
  "0.30 \<le> fst (margin_pct S dflag party g) \<and> fst (margin_pct S dflag party g) \<le> 0.50"
proof -
  obtain x where "fst (margin_pct S dflag party g) = np_clip x 0.30 0.50"
    using margin_pct_clipped [of S dflag party g] by (elim exE)
  then show ?thesis
    using np_clip_bounds [of "0.30" "0.50" x] by simp
qed


section \<open>Proofs: the booking simulation engine\<close>

lemma make_booking_fields:
  assumes "make_booking S guide_ids rt d division is_bh bid g = Inr (b, g')"
  shows "booking_id b = bid" "booking_date b = dd_date d" "b_route_id b = route_id rt"
    "b_region b = region rt" "holiday_division b = division"
    "discount_flag b = 0 \<or> discount_flag b = 1"
    "\<exists>m. 0.30 \<le> m \<and> m \<le> 0.50 \<and> b_margin_pct b = py_round m 4"
    "\<exists>s. sales_ex_vat b = py_round s 2 \<and> vat_amount b = py_round (s * VAT_RATE) 2 \<and>
         sales_inc_vat b = py_round (s + s * VAT_RATE) 2"
proof -
  from assms obtain party g1 dflag dpct g2 ppp g3 mpct g4 sn g5 gid where
    mp: "margin_pct S dflag party g3 = (mpct, g4)" and
    b: "b = \<lparr>booking_id = bid,
                booking_date = dd_date d,
                date_key = date_key_of (dd_date d),
                b_route_id = route_id rt,
                b_region = region rt,
                b_guide_id = gid,
                b_party_size = party,
                b_difficulty = difficulty rt,
                b_duration_hours = py_round (duration_hours rt) 2,
                discount_flag = (if dflag then 1 else 0),
                discount_pct = py_round dpct 4,
                b_price_per_person_ex_vat = py_round ppp 2,
                sales_ex_vat = py_round (max (ppp * of_int party - (if dflag then ppp * of_int party * dpct else 0.0)) 0.0) 2,
                vat_amount = py_round (max (ppp * of_int party - (if dflag then ppp * of_int party * dpct else 0.0)) 0.0 * VAT_RATE) 2,
                sales_inc_vat = py_round (max (ppp * of_int party - (if dflag then ppp * of_int party * dpct else 0.0)) 0.0 + max (ppp * of_int party - (if dflag then ppp * of_int party * dpct else 0.0)) 0.0 * VAT_RATE) 2,
                staff_cost = py_round (max (max (ppp * of_int party - (if dflag then ppp * of_int party * dpct else 0.0)) 0.0 - max (ppp * of_int party - (if dflag then ppp * of_int party * dpct else 0.0)) 0.0 * mpct) 0.0 * np_clip sn 0.50 0.75) 2,
                margin_amount = py_round (max (ppp * of_int party - (if dflag then ppp * of_int party * dpct else 0.0)) 0.0 * mpct) 2,
                b_margin_pct = py_round mpct 4,
                b_season = dd_season d,
                b_is_weekend = (if dd_is_weekend d then 1 else 0),
                b_is_bank_holiday = (if is_bh then 1 else 0),
                holiday_division = division\<rparr>"
    unfolding make_booking_def Let_def
    by (auto split: sum.splits prod.splits)
  show "booking_id b = bid" "booking_date b = dd_date d" "b_route_id b = route_id rt"
    "b_region b = region rt" "holiday_division b = division"
    "discount_flag b = 0 \<or> discount_flag b = 1"
    by (simp_all add: b)
  have "0.30 \<le> mpct \<and> mpct \<le> 0.50"
    using margin_pct_bounds [of S dflag party g3] mp by simp
  then show "\<exists>m. 0.30 \<le> m \<and> m \<le> 0.50 \<and> b_margin_pct b = py_round m 4"
    by (intro exI [of _ mpct]) (simp add: b)
  show "\<exists>s. sales_ex_vat b = py_round s 2 \<and> vat_amount b = py_round (s * VAT_RATE) 2 \<and>
         sales_inc_vat b = py_round (s + s * VAT_RATE) 2"
    by (intro exI [of _ "max (ppp * of_int party - (if dflag then ppp * of_int party * dpct else 0.0)) 0.0"]) (simp add: b)
qed


lemma bookings_loop_inv:
  assumes step: "\<And>bid g b g'.
      make_booking S guide_ids rt d division is_bh bid g = Inr (b, g') \<Longrightarrow> P b"
    and "\<forall>b \<in> set rows. P b"
    and "bookings_loop S guide_ids rt d division is_bh k (g, bid, rows) = Inr (g', bid', rows')"
  shows "\<forall>b \<in> set rows'. P b"
  using assms(2,3)
proof (induction k arbitrary: g bid rows)
  case 0
  then show ?case by simp
next
  case (Suc k)
  from Suc.prems(2) obtain b g1 where
    mb: "make_booking S guide_ids rt d division is_bh bid g = Inr (b, g1)" and
    rest: "bookings_loop S guide_ids rt d division is_bh k (g1, bid + 1, rows @ [b]) =
           Inr (g', bid', rows')"
    by (auto split: sum.splits)
  from step [OF mb] Suc.prems(1) have "\<forall>x \<in> set (rows @ [b]). P x"
    by simp
  then show ?case
    using Suc.IH rest by blast
qed

lemma route_day_inv:
  assumes step: "\<And>is_bh bid g b g'. dd_date d \<notin> closed_dates \<Longrightarrow>
      make_booking S guide_ids rt d division is_bh bid g = Inr (b, g') \<Longrightarrow> P b"
    and rows: "\<forall>b \<in> set rows. P b"
    and run: "route_day S guide_ids closed_dates division rt d (g, bid, rows) = Inr (g', bid', rows')"
  shows "\<forall>b \<in> set rows'. P b"
proof (cases "dd_date d \<in> closed_dates")
  case True
  with run rows show ?thesis
    by (simp add: route_day_def)
next
  case False
  let ?is_bh = "if division = ''scotland'' then dd_is_bank_holiday_scotland d
                else if division = ''northern-ireland''
                then dd_is_bank_holiday_northern_ireland d
                else dd_is_bank_holiday_england_wales d"
  let ?mu = "expected_bookings_per_route_day (region rt) (dd_season d) (difficulty rt)
               (dd_is_weekend d) ?is_bh"
  obtain n g1 where p: "sample_poisson S ?mu g = (n, g1)"
    by (cases "sample_poisson S ?mu g")
  show ?thesis
  proof (cases "n \<le> 0")
    case True
    with run False p rows show ?thesis
      by (simp add: route_day_def Let_def)
  next
    case n: False
    with run False p have
      "bookings_loop S guide_ids rt d division ?is_bh (nat n) (g1, bid, rows) = Inr (g', bid', rows')"
      by (simp add: route_day_def Let_def)
    moreover have "\<And>bid g b g'.
        make_booking S guide_ids rt d division ?is_bh bid g = Inr (b, g') \<Longrightarrow> P b"
      using step [OF False] by blast
    ultimately show ?thesis
      using rows by (rule bookings_loop_inv [where P = P, rotated 2])
  qed
qed

lemma dates_loop_inv:
  assumes step: "\<And>d is_bh bid g b g'. d \<in> set dates \<Longrightarrow> dd_date d \<notin> closed_dates \<Longrightarrow>
      make_booking S guide_ids rt d division is_bh bid g = Inr (b, g') \<Longrightarrow> P b"
    and "\<forall>b \<in> set rows. P b"
    and "dates_loop S guide_ids closed_dates division rt dates (g, bid, rows) = Inr (g', bid', rows')"
  shows "\<forall>b \<in> set rows'. P b"
  using assms
proof (induction dates arbitrary: g bid rows)
  case Nil
  then show ?case by simp
next
  case (Cons d ds)
  from Cons.prems(3) obtain g1 bid1 rows1 where
    rd: "route_day S guide_ids closed_dates division rt d (g, bid, rows) = Inr (g1, bid1, rows1)" and
    rest: "dates_loop S guide_ids closed_dates division rt ds (g1, bid1, rows1) = Inr (g', bid', rows')"
    by (auto split: sum.splits)
  have "\<And>is_bh bid g b g'. dd_date d \<notin> closed_dates \<Longrightarrow>
      make_booking S guide_ids rt d division is_bh bid g = Inr (b, g') \<Longrightarrow> P b"
    using Cons.prems(1) [of d] by simp
  then have "\<forall>b \<in> set rows1. P b"
    using Cons.prems(2) rd by (rule route_day_inv [where P = P])
  moreover have "\<And>d' is_bh bid g b g'. d' \<in> set ds \<Longrightarrow> dd_date d' \<notin> closed_dates \<Longrightarrow>
      make_booking S guide_ids rt d' division is_bh bid g = Inr (b, g') \<Longrightarrow> P b"
    using Cons.prems(1) by (meson list.set_intros(2))
  ultimately show ?case
    using rest Cons.IH by blast
qed

lemma routes_loop_inv:
  assumes step: "\<And>rt d is_bh bid g b g'. rt \<in> set routes \<Longrightarrow> d \<in> set dates \<Longrightarrow>
      dd_date d \<notin> closed_dates_of closed_by_div (division_of_region region_div (region rt)) \<Longrightarrow>
      make_booking S guide_ids rt d (division_of_region region_div (region rt)) is_bh bid g =
        Inr (b, g') \<Longrightarrow> P b"
    and "\<forall>b \<in> set rows. P b"
    and "routes_loop S guide_ids closed_by_div region_div dates routes (g, bid, rows) =
         Inr (g', bid', rows')"
  shows "\<forall>b \<in> set rows'. P b"
  using assms
proof (induction routes arbitrary: g bid rows)
  case Nil
  then show ?case by simp
next
  case (Cons rt rts)
  let ?dv = "division_of_region region_div (region rt)"
  from Cons.prems(3) obtain g1 bid1 rows1 where
    dl: "dates_loop S guide_ids (closed_dates_of closed_by_div ?dv) ?dv rt dates (g, bid, rows) =
         Inr (g1, bid1, rows1)" and
    rest: "routes_loop S guide_ids closed_by_div region_div dates rts (g1, bid1, rows1) =
           Inr (g', bid', rows')"
    by (auto simp: Let_def split: sum.splits)
  have "\<And>d is_bh bid g b g'. d \<in> set dates \<Longrightarrow>
      dd_date d \<notin> closed_dates_of closed_by_div ?dv \<Longrightarrow>
      make_booking S guide_ids rt d ?dv is_bh bid g = Inr (b, g') \<Longrightarrow> P b"
    using Cons.prems(1) [of rt] by simp
  then have "\<forall>b \<in> set rows1. P b"
    using Cons.prems(2) dl by (rule dates_loop_inv [where P = P])
  moreover have "\<And>rt' d is_bh bid g b g'. rt' \<in> set rts \<Longrightarrow> d \<in> set dates \<Longrightarrow>
      dd_date d \<notin> closed_dates_of closed_by_div (division_of_region region_div (region rt')) \<Longrightarrow>
      make_booking S guide_ids rt' d (division_of_region region_div (region rt')) is_bh bid g =
        Inr (b, g') \<Longrightarrow> P b"
    using Cons.prems(1) by (meson list.set_intros(2))
  ultimately show ?case
    using rest Cons.IH by blast
qed

lemma generate_fact_bookings_inv:
  assumes step: "\<And>rt d is_bh bid g b g'. rt \<in> set (in_routes inp) \<Longrightarrow>
      d \<in> set (load_dates (in_dates inp)) \<Longrightarrow>
      dd_date d \<notin> closed_dates_of (build_closed_dates_by_division (in_bh inp))
                     (division_of_region (in_region_div inp) (region rt)) \<Longrightarrow>
      make_booking S (map guide_id (in_guides inp)) rt d
        (division_of_region (in_region_div inp) (region rt)) is_bh bid g = Inr (b, g') \<Longrightarrow> P b"
    and run: "generate_fact_bookings S g0 inp = Inr rows"
  shows "\<forall>b \<in> set rows. P b"
proof -
  from run obtain g' bid' where
    "routes_loop S (map guide_id (in_guides inp)) (build_closed_dates_by_division (in_bh inp))
       (in_region_div inp) (load_dates (in_dates inp)) (in_routes inp) (g0, 1, []) =
     Inr (g', bid', rows)"
    by (auto simp: generate_fact_bookings_def Let_def split: sum.splits)
  then show ?thesis
    using routes_loop_inv [where P = P and rows = "[]", OF step] by simp
qed

section \<open>Proofs: the closed-day resolver\<close>


lemma foldl_or:
  "foldl (\<lambda>mask kw. mask \<or> f kw) acc kws = (acc \<or> (\<exists>kw \<in> set kws. f kw))"
  by (induction kws arbitrary: acc) auto

lemma closed_mask_iff:
  "closed_mask title = (\<exists>kw \<in> set CLOSED_HOLIDAY_KEYWORDS. str_contains_nocase title kw)"
  by (simp add: closed_mask_def foldl_or)

lemma starts_with_append: "starts_with s (k @ k') \<Longrightarrow> starts_with s k"
  by (induction s k rule: starts_with.induct) auto

lemma find_sub_append: "find_sub s (k @ k') \<Longrightarrow> find_sub s k"
  by (induction s) (auto dest: starts_with_append)

lemma str_contains_nocase_append:
  "str_contains_nocase title (k @ k') \<Longrightarrow> str_contains_nocase title k"
  by (auto simp: str_contains_nocase_def dest: find_sub_append)

lemma keywords_equiv:
  "(\<exists>kw \<in> set CLOSED_HOLIDAY_KEYWORDS. str_contains_nocase title kw) =
   (\<exists>kw \<in> set SPEC_KEYWORDS. str_contains_nocase title kw)"
  unfolding CLOSED_HOLIDAY_KEYWORDS_def SPEC_KEYWORDS_def
  using str_contains_nocase_append [of title "''New Year''"]
  by (auto simp del: append.simps map_append)

lemma fold_upd:
  "fold (\<lambda>k out. out(k \<mapsto> f k)) ks m = (\<lambda>k. if k \<in> set ks then Some (f k) else m k)"
  by (induction ks arbitrary: m) (auto simp: fun_eq_iff)

lemma closed_dates_of_build:
  "closed_dates_of (build_closed_dates_by_division bh) division = closed_day_set bh division"
  unfolding closed_dates_of_def build_closed_dates_by_division_def Let_def fold_upd
    closed_day_set_def closed_mask_iff keywords_equiv
  by (auto simp: image_iff)

section \<open>Proofs: runs with an empty guide table\<close>


lemma party_size_ok: "\<exists>p g'. party_size S diff g = Inr (p, g')"
  by (simp add: party_size_def rng_choice_def Let_def split: prod.splits)

lemma make_booking_no_guides:
  "make_booking S [] rt d division is_bh bid g = Inl ValueError"
proof -
  obtain p g1 where "party_size S (difficulty rt) g = Inr (p, g1)"
    using party_size_ok [of S "difficulty rt" g] by (elim exE)
  then show ?thesis
    by (simp add: make_booking_def Let_def rng_choice_def split: prod.splits)
qed

lemma bookings_loop_no_guides:
  "0 < k \<Longrightarrow> bookings_loop S [] rt d division is_bh k (g, bid, rows) = Inl ValueError"
  by (cases k) (simp_all add: make_booking_no_guides)

lemma route_day_no_guides:
  "route_day S [] closed_dates division rt d (g, bid, rows) =
     (if dd_date d \<in> closed_dates then Inr (g, bid, rows)
      else case sample_poisson S (route_day_mu division rt d) g of
             (n, g1) \<Rightarrow> if n \<le> 0 then Inr (g1, bid, rows) else Inl ValueError)"
  by (simp add: route_day_def route_day_mu_def Let_def bookings_loop_no_guides split: prod.splits)

lemma dates_loop_no_guides:
  "dates_loop S [] closed_dates division rt dates (g, bid, rows) =
     (if no_positive_count S (open_day_mus closed_dates division rt dates) g
      then Inr (after_counts S (open_day_mus closed_dates division rt dates) g, bid, rows)
      else Inl ValueError)"
proof (induction dates arbitrary: g)
  case Nil
  then show ?case by (simp add: open_day_mus_def)
next
  case (Cons d ds)
  show ?case
  proof (cases "dd_date d \<in> closed_dates")
    case True
    then show ?thesis
      using Cons.IH [of g] by (simp add: route_day_no_guides open_day_mus_def)
  next
    case False
    obtain n g1 where p: "sample_poisson S (route_day_mu division rt d) g = (n, g1)"
      by (cases "sample_poisson S (route_day_mu division rt d) g")
    show ?thesis
      using False p Cons.IH [of g1] by (simp add: route_day_no_guides open_day_mus_def)
  qed
qed

lemma no_positive_count_append:
  "no_positive_count S (xs @ ys) g =
     (no_positive_count S xs g \<and> no_positive_count S ys (after_counts S xs g))"
  by (induction xs arbitrary: g) (auto split: prod.splits)

lemma after_counts_append:
  "after_counts S (xs @ ys) g = after_counts S ys (after_counts S xs g)"
  by (induction xs arbitrary: g) (auto split: prod.splits)

lemma routes_loop_no_guides:
  "routes_loop S [] closed_by_div region_div dates routes (g, bid, rows) =
     (let mus = concat (map (\<lambda>rt.
                  let division = division_of_region region_div (region rt)
                  in open_day_mus (closed_dates_of closed_by_div division) division rt dates)
                routes)
      in if no_positive_count S mus g then Inr (after_counts S mus g, bid, rows)
         else Inl ValueError)"
proof (induction routes arbitrary: g)
  case Nil
  then show ?case by simp
next
  case (Cons rt rts)
  show ?case
    using Cons.IH
    by (simp add: Let_def dates_loop_no_guides no_positive_count_append after_counts_append)
qed


lemma ex_run_two_rows:
  "case generate_fact_bookings ex_sampler 0 ex_inputs of
     Inl e \<Rightarrow> False | Inr rows \<Rightarrow> length rows = 2"
  by code_simp

section \<open>The claims about the booking simulation engine\<close>

text \<open>
  Claim C1. Every booking row that \<open>generate_fact_bookings\<close> emits, on any inputs and
  with any generator, was generated for a route of the route table whose id and region
  it carries; its \<open>holiday_division\<close> is that route's region mapped through the
  region-to-division table (england-and-wales when unmapped); and its \<open>booking_date\<close>
  is not in the closed-day set of that division, the dates of the division's bank
  holidays whose title contains, ignoring case, one of the keywords Christmas Day,
  Boxing Day, New Year, Good Friday, Easter Monday.
\<close>

theorem closure_invariant:
  assumes "generate_fact_bookings S g0 inp = Inr rows"
  shows "\<forall>b \<in> set rows. \<exists>rt \<in> set (in_routes inp).
           b_route_id b = route_id rt \<and> b_region b = region rt \<and>
           holiday_division b = division_of_region (in_region_div inp) (region rt) \<and>
           booking_date b \<notin> closed_day_set (in_bh inp) (holiday_division b)"
proof (rule generate_fact_bookings_inv [OF _ assms])
  fix rt :: route and d :: date_row and is_bh bid g and b :: booking and g'
  let ?dv = "division_of_region (in_region_div inp) (region rt)"
  assume rt: "rt \<in> set (in_routes inp)"
    and op: "dd_date d \<notin> closed_dates_of (build_closed_dates_by_division (in_bh inp)) ?dv"
    and mb: "make_booking S (map guide_id (in_guides inp)) rt d ?dv is_bh bid g = Inr (b, g')"
  from op have nc: "dd_date d \<notin> closed_day_set (in_bh inp) ?dv"
    by (simp add: closed_dates_of_build)
  have f: "booking_date b = dd_date d" "b_route_id b = route_id rt" "b_region b = region rt"
    "holiday_division b = ?dv"
    using make_booking_fields(2-5) [OF mb] by simp_all
  show "\<exists>rt \<in> set (in_routes inp).
           b_route_id b = route_id rt \<and> b_region b = region rt \<and>
           holiday_division b = division_of_region (in_region_div inp) (region rt) \<and>
           booking_date b \<notin> closed_day_set (in_bh inp) (holiday_division b)"
    using rt nc f by auto
qed

theorem closure_invariant_witness:
  "\<exists>rows. generate_fact_bookings ex_sampler 0 ex_inputs = Inr rows \<and> length rows = 2 \<and>
     (\<forall>b \<in> set rows. \<exists>rt \<in> set (in_routes ex_inputs).
        b_route_id b = route_id rt \<and> b_region b = region rt \<and>
        holiday_division b = division_of_region (in_region_div ex_inputs) (region rt) \<and>
        booking_date b \<notin> closed_day_set (in_bh ex_inputs) (holiday_division b))"
proof -
  obtain rows where run: "generate_fact_bookings ex_sampler 0 ex_inputs = Inr rows"
    and len: "length rows = 2"
    using ex_run_two_rows by (auto split: sum.splits)
  from closure_invariant [OF run] run len show ?thesis
    by blast
qed

text \<open>
  Claim C3. Every booking emitted by \<open>generate_fact_bookings\<close> stores a
  \<open>margin_pct\<close> (the clipped margin rounded to 4 decimal places) between 0.30 and 0.50.
\<close>

theorem margin_bound:
  assumes "generate_fact_bookings S g0 inp = Inr rows"
  shows "\<forall>b \<in> set rows. 0.30 \<le> b_margin_pct b \<and> b_margin_pct b \<le> 0.50"
proof (rule generate_fact_bookings_inv [OF _ assms])
  fix rt :: route and d :: date_row and is_bh bid g and b :: booking and g'
  assume mb: "make_booking S (map guide_id (in_guides inp)) rt d
            (division_of_region (in_region_div inp) (region rt)) is_bh bid g = Inr (b, g')"
  then obtain m where "0.30 \<le> m" "m \<le> 0.50" "b_margin_pct b = py_round m 4"
    using make_booking_fields(7) [OF mb] by auto
  then show "0.30 \<le> b_margin_pct b \<and> b_margin_pct b \<le> 0.50"
    using py_round4_bounds [of m] by simp
qed

theorem margin_bound_witness:
  "\<exists>rows. generate_fact_bookings ex_sampler 0 ex_inputs = Inr rows \<and> length rows = 2 \<and>
     (\<forall>b \<in> set rows. 0.30 \<le> b_margin_pct b \<and> b_margin_pct b \<le> 0.50)"
proof -
  obtain rows where run: "generate_fact_bookings ex_sampler 0 ex_inputs = Inr rows"
    and len: "length rows = 2"
    using ex_run_two_rows by (auto split: sum.splits)
  from margin_bound [OF run] run len show ?thesis
    by blast
qed

text \<open>
  Claim C4. Every booking emitted by \<open>generate_fact_bookings\<close> stores monetary fields
  (each the exact value rounded to 2 decimal places) with
  \<open>|vat_amount - sales_ex_vat * 0.20| \<le> 0.03\<close> and
  \<open>|sales_inc_vat - (sales_ex_vat + vat_amount)| \<le> 0.03\<close>.
\<close>

theorem vat_identity:
  assumes "generate_fact_bookings S g0 inp = Inr rows"
  shows "\<forall>b \<in> set rows.
           \<bar>vat_amount b - sales_ex_vat b * VAT_RATE\<bar> \<le> 0.03 \<and>
           \<bar>sales_inc_vat b - (sales_ex_vat b + vat_amount b)\<bar> \<le> 0.03"
proof (rule generate_fact_bookings_inv [OF _ assms])
  fix rt :: route and d :: date_row and is_bh bid g and b :: booking and g'
  assume mb: "make_booking S (map guide_id (in_guides inp)) rt d
            (division_of_region (in_region_div inp) (region rt)) is_bh bid g = Inr (b, g')"
  then obtain s where s: "sales_ex_vat b = py_round s 2"
    and v: "vat_amount b = py_round (s * VAT_RATE) 2"
    and i: "sales_inc_vat b = py_round (s + s * VAT_RATE) 2"
    using make_booking_fields(8) [OF mb] by auto
  have "\<bar>py_round s 2 - s\<bar> \<le> 0.005"
    "\<bar>py_round (s * VAT_RATE) 2 - s * VAT_RATE\<bar> \<le> 0.005"
    "\<bar>py_round (s + s * VAT_RATE) 2 - (s + s * VAT_RATE)\<bar> \<le> 0.005"
    by (rule py_round_err2)+
  then show "\<bar>vat_amount b - sales_ex_vat b * VAT_RATE\<bar> \<le> 0.03 \<and>
             \<bar>sales_inc_vat b - (sales_ex_vat b + vat_amount b)\<bar> \<le> 0.03"
    unfolding s v i VAT_RATE_def by (rule vat_arith)
qed

theorem vat_identity_witness:
  "\<exists>rows. generate_fact_bookings ex_sampler 0 ex_inputs = Inr rows \<and> length rows = 2 \<and>
     (\<forall>b \<in> set rows.
        \<bar>vat_amount b - sales_ex_vat b * VAT_RATE\<bar> \<le> 0.03 \<and>
        \<bar>sales_inc_vat b - (sales_ex_vat b + vat_amount b)\<bar> \<le> 0.03)"
proof -
  obtain rows where run: "generate_fact_bookings ex_sampler 0 ex_inputs = Inr rows"
    and len: "length rows = 2"
    using ex_run_two_rows by (auto split: sum.splits)
  from vat_identity [OF run] run len show ?thesis
    by blast
qed

text \<open>
  Claim C6, as stated, fails: with an empty guide table and a positive Poisson count
  on an open route-day, the guide draw raises \<open>ValueError\<close> and no table is produced.
\<close>

theorem empty_guides_counterexample:
  "generate_fact_bookings ex_sampler 0 ex_inputs_no_guides = Inl ValueError"
  by code_simp

text \<open>
  Claim C6, amended. With an empty guide table, \<open>generate_fact_bookings\<close> completes
  normally with an empty fact table exactly when no Poisson count drawn for a
  non-closed route-day is positive; otherwise the run ends in \<open>ValueError\<close>, raised
  by the guide draw of the first booking.
\<close>

theorem empty_guides_run:
  assumes "in_guides inp = []"
  shows "generate_fact_bookings S g0 inp =
     (if no_positive_count S (open_route_day_mus inp) g0 then Inr [] else Inl ValueError)"
  using assms
  by (simp add: generate_fact_bookings_def open_route_day_mus_def routes_loop_no_guides Let_def)

theorem empty_guides_run_witness:
  "in_guides ex_inputs_no_guides = [] \<and>
   no_positive_count ex_sampler_idle (open_route_day_mus ex_inputs_no_guides) 0 \<and>
   generate_fact_bookings ex_sampler_idle 0 ex_inputs_no_guides = Inr []"
proof -
  have g: "in_guides ex_inputs_no_guides = []"
    by code_simp
  have n: "no_positive_count ex_sampler_idle (open_route_day_mus ex_inputs_no_guides) 0"
    by code_simp
  from empty_guides_run [OF g, of ex_sampler_idle 0] g n show ?thesis
    by simp
qed

section \<open>Proofs: the route-day aggregate\<close>

lemma set_left_merge:
  "fst ` set (left_merge kl kr ls rs) = set ls"
proof -
  have "\<And>l. fst ` set (case filter (\<lambda>r. kr r = kl l) rs of
                           [] \<Rightarrow> [(l, None)]
                         | ms \<Rightarrow> map (\<lambda>r. (l, Some r)) ms) = {l}"
    by (auto split: list.splits simp: image_iff)
  then show ?thesis
    unfolding left_merge_def by (auto simp: image_UN)
qed

lemma sum_flags_bounds:
  "\<forall>b \<in> set g. discount_flag b = 0 \<or> discount_flag b = 1 \<Longrightarrow>
   0 \<le> sum_list (map discount_flag g) \<and> sum_list (map discount_flag g) \<le> int (length g)"
  by (induction g) auto

lemma aggregate_ok:
  assumes "g \<noteq> []"
  shows "1 \<le> bookings_count (aggregate k g)"
    "\<exists>r. discount_rate (aggregate k g) = Some r \<and>
       ((\<forall>b \<in> set g. discount_flag b = 0 \<or> discount_flag b = 1) \<longrightarrow> 0 \<le> r \<and> r \<le> 1)"
proof -
  from assms have l: "0 < length g" by simp
  show "1 \<le> bookings_count (aggregate k g)"
    using assms by (cases g) (simp_all add: aggregate_def Let_def)
  let ?d = "sum_list (map discount_flag g)"
  have rate: "discount_rate (aggregate k g) = Some (of_int ?d / of_int (int (length g)))"
    using l by (simp add: aggregate_def Let_def pd_div_def)
  {
    assume "\<forall>b \<in> set g. discount_flag b = 0 \<or> discount_flag b = 1"
    then have "0 \<le> ?d" "?d \<le> int (length g)"
      using sum_flags_bounds [of g] by simp_all
    then have "0 \<le> (of_int ?d :: real)" "(of_int ?d :: real) \<le> of_int (int (length g))"
      by linarith+
    then have "0 \<le> (of_int ?d :: real) / of_int (int (length g)) \<and>
               (of_int ?d :: real) / of_int (int (length g)) \<le> 1"
      using l by (simp add: divide_le_eq_1)
  }
  with rate show "\<exists>r. discount_rate (aggregate k g) = Some r \<and>
       ((\<forall>b \<in> set g. discount_flag b = 0 \<or> discount_flag b = 1) \<longrightarrow> 0 \<le> r \<and> r \<le> 1)"
    by blast
qed

lemma groupby_agg_rows:
  assumes "a \<in> set (groupby_agg fact_bookings)"
  shows "\<exists>k g. a = aggregate k g \<and> g \<noteq> [] \<and> set g \<subseteq> set fact_bookings"
proof -
  from assms obtain k where k: "k \<in> set (map group_key fact_bookings)"
    and a: "a = aggregate k (filter (\<lambda>b. group_key b = k) fact_bookings)"
    by (auto simp: groupby_agg_def)
  from k have "filter (\<lambda>b. group_key b = k) fact_bookings \<noteq> []"
    by (auto simp: filter_empty_conv)
  with a show ?thesis by (intro exI [of _ k] exI [of _ "filter (\<lambda>b. group_key b = k) fact_bookings"]) auto
qed

lemma build_route_day_rows:
  assumes "m \<in> set (build_route_day fact_bookings dim_date dim_route)"
  shows "fst (fst m) \<in> set (groupby_agg fact_bookings)"
proof -
  let ?m1 = "left_merge rd_date_key dd_date_key (groupby_agg fact_bookings) dim_date"
  let ?m2 = "left_merge (\<lambda>m. rd_route_id (fst m)) route_id ?m1 dim_route"
  from assms have "m \<in> set ?m2"
    by (simp add: build_route_day_def Let_def)
  then have "fst m \<in> fst ` set ?m2" by (rule imageI)
  then have "fst m \<in> set ?m1" by (simp only: set_left_merge)
  then have "fst (fst m) \<in> fst ` set ?m1" by (rule imageI)
  then show ?thesis by (simp only: set_left_merge)
qed

text \<open>
  Claim C10. Every row of the route-day aggregate that \<open>build_route_day\<close> produces has
  \<open>bookings_count \<ge> 1\<close>, so the division \<open>discount_bookings / bookings_count\<close> never
  has a zero denominator: \<open>discount_rate\<close> is a number. That number lies in [0,1] when
  every \<open>discount_flag\<close> of the fact table is the 0 or 1 the generator writes.
\<close>

theorem route_day_discount_rate:
  "\<forall>m \<in> set (build_route_day fact_bookings dim_date dim_route).
     1 \<le> bookings_count (fst (fst m)) \<and>
     (\<exists>r. discount_rate (fst (fst m)) = Some r \<and>
        ((\<forall>b \<in> set fact_bookings. discount_flag b = 0 \<or> discount_flag b = 1) \<longrightarrow>
         0 \<le> r \<and> r \<le> 1))"
proof
  fix m
  assume "m \<in> set (build_route_day fact_bookings dim_date dim_route)"
  then have "fst (fst m) \<in> set (groupby_agg fact_bookings)"
    by (rule build_route_day_rows)
  then obtain k g where a: "fst (fst m) = aggregate k g" and g: "g \<noteq> []"
    and sub: "set g \<subseteq> set fact_bookings"
    using groupby_agg_rows by blast
  from aggregate_ok(2) [OF g, of k] obtain r where
    r: "discount_rate (aggregate k g) = Some r"
    and b: "(\<forall>b \<in> set g. discount_flag b = 0 \<or> discount_flag b = 1) \<longrightarrow> 0 \<le> r \<and> r \<le> 1"
    by blast
  from b sub have
    "(\<forall>b \<in> set fact_bookings. discount_flag b = 0 \<or> discount_flag b = 1) \<longrightarrow> 0 \<le> r \<and> r \<le> 1"
    by blast
  with r aggregate_ok(1) [OF g, of k] a
  show "1 \<le> bookings_count (fst (fst m)) \<and>
     (\<exists>r. discount_rate (fst (fst m)) = Some r \<and>
        ((\<forall>b \<in> set fact_bookings. discount_flag b = 0 \<or> discount_flag b = 1) \<longrightarrow>
         0 \<le> r \<and> r \<le> 1))"
    by simp
qed

theorem route_day_discount_rate_witness:
  "map (\<lambda>m. (bookings_count (fst (fst m)), discount_rate (fst (fst m))))
     (build_route_day ex_fact (in_dates ex_inputs) [ex_route]) = [(2, Some 1), (1, Some 0)] \<and>
   (\<forall>b \<in> set ex_fact. discount_flag b = 0 \<or> discount_flag b = 1) \<and>
   (\<forall>m \<in> set (build_route_day ex_fact (in_dates ex_inputs) [ex_route]).
      1 \<le> bookings_count (fst (fst m)) \<and>
      (\<exists>r. discount_rate (fst (fst m)) = Some r \<and> 0 \<le> r \<and> r \<le> 1))"
proof -
  have rows: "map (\<lambda>m. (bookings_count (fst (fst m)), discount_rate (fst (fst m))))
     (build_route_day ex_fact (in_dates ex_inputs) [ex_route]) = [(2, Some 1), (1, Some 0)]"
    by code_simp
  have flags: "\<forall>b \<in> set ex_fact. discount_flag b = 0 \<or> discount_flag b = 1"
    by code_simp
  from route_day_discount_rate [of ex_fact "in_dates ex_inputs" "[ex_route]"] flags rows
  show ?thesis
    by blast
qed

end
